theory Spec2Isabelle
  imports Complex_Main "HOL-Library.Multiset"
begin

section \<open>Python values\<close>

subsection \<open>Text\<close>

text \<open>
  A Python \<open>str\<close> is a sequence of Unicode code points. The messages of the program are
  Korean, so text is modelled as a list of code points rather than as a list of bytes;
  \<open>ustr\<close> embeds an ASCII literal.
\<close>

type_synonym pystr = "nat list"

definition ustr :: "string \<Rightarrow> pystr" where
  "ustr s = map of_char s"

text \<open>\<open>str(n)\<close> for an integer: decimal digits, with a minus sign for negative numbers.\<close>

fun str_nat :: "nat \<Rightarrow> pystr" where
  "str_nat n = (if n < 10 then [48 + n] else str_nat (n div 10) @ [48 + n mod 10])"

declare str_nat.simps [simp del]

definition str_int :: "int \<Rightarrow> pystr" where
  "str_int i = (if i < 0 then 45 # str_nat (nat (- i)) else str_nat (nat i))"

text \<open>
  The characters that \<open>str.strip()\<close> removes when called without an argument: the code
  points for which \<open>str.isspace\<close> holds.
\<close>

definition py_isspace :: "nat \<Rightarrow> bool" where
  "py_isspace c \<longleftrightarrow>
     (9 \<le> c \<and> c \<le> 13) \<or> (28 \<le> c \<and> c \<le> 32) \<or> c = 0x85 \<or> c = 0xA0 \<or> c = 0x1680 \<or>
     (0x2000 \<le> c \<and> c \<le> 0x200A) \<or> c = 0x2028 \<or> c = 0x2029 \<or> c = 0x202F \<or>
     c = 0x205F \<or> c = 0x3000"

definition py_strip :: "pystr \<Rightarrow> pystr" where
  "py_strip s = rev (dropWhile py_isspace (rev (dropWhile py_isspace s)))"

subsection \<open>Exceptions\<close>

text \<open>
  Every exception the lookup can meet is an instance of \<open>Exception\<close>. The ones raised by
  the \<open>requests\<close> library (connection failure, timeout) and by \<open>response.json()\<close> carry
  the text that \<open>str(e)\<close> gives; \<open>KeyError\<close> carries the missing key.
\<close>

datatype exn =
    KeyError pystr
  | TypeError pystr
  | ValueError pystr
  | OverflowError pystr
  | AttributeError pystr
  | RequestException pystr
  | JSONDecodeError pystr

text \<open>
  \<open>str(e)\<close>. For a \<open>KeyError\<close> it is the \<open>repr\<close> of the key: the key between single
  quotes, for the keys this program subscripts with (none holds a quote or a backslash).
\<close>

fun str_exn :: "exn \<Rightarrow> pystr" where
  "str_exn (KeyError k) = [39] @ k @ [39]"
| "str_exn (TypeError m) = m"
| "str_exn (ValueError m) = m"
| "str_exn (OverflowError m) = m"
| "str_exn (AttributeError m) = m"
| "str_exn (RequestException m) = m"
| "str_exn (JSONDecodeError m) = m"

subsection \<open>Parsed JSON\<close>

text \<open>
  What \<open>response.json()\<close> returns. The float type \<open>'f\<close> is left abstract. A \<open>dict\<close> is the
  list of its items; the keys of a Python dict are distinct, and a lookup takes the first
  item with the key.
\<close>

datatype 'f json =
    JNull
  | JBool bool
  | JInt int
  | JFloat 'f
  | JStr pystr
  | JList "'f json list"
  | JDict "(pystr \<times> 'f json) list"

text \<open>
  The primitives of the interpreter on floats, which the program uses but does not
  define: \<open>float(n)\<close> on an \<open>int\<close>, \<open>float(s)\<close> on a \<open>str\<close>, \<open>math.isnan\<close>, truth value,
  \<open>str\<close> of a float, and \<open>repr\<close> of a JSON value that is not text, a boolean, an integer
  or \<open>None\<close>.
\<close>

record 'f interp =
  float_of_int :: "int \<Rightarrow> exn + 'f"
  float_of_str :: "pystr \<Rightarrow> exn + 'f"
  float_isnan :: "'f \<Rightarrow> bool"
  float_truthy :: "'f \<Rightarrow> bool"
  str_float :: "'f \<Rightarrow> pystr"
  repr_json :: "'f json \<Rightarrow> pystr"

text \<open>The name of a value's type, as the interpreter's messages print it.\<close>

fun type_name :: "'f json \<Rightarrow> pystr" where
  "type_name JNull = ustr ''NoneType''"
| "type_name (JBool _) = ustr ''bool''"
| "type_name (JInt _) = ustr ''int''"
| "type_name (JFloat _) = ustr ''float''"
| "type_name (JStr _) = ustr ''str''"
| "type_name (JList _) = ustr ''list''"
| "type_name (JDict _) = ustr ''dict''"

definition quoted :: "pystr \<Rightarrow> pystr" where
  "quoted s = [39] @ s @ [39]"

text \<open>\<open>v[k]\<close> with a text key: only a dict that has the key answers.\<close>

fun getitem :: "'f json \<Rightarrow> pystr \<Rightarrow> exn + 'f json" where
  "getitem (JDict items) k =
     (case map_of items k of None \<Rightarrow> Inl (KeyError k) | Some v \<Rightarrow> Inr v)"
| "getitem (JList _) k =
     Inl (TypeError (ustr ''list indices must be integers or slices, not str''))"
| "getitem (JStr _) k =
     Inl (TypeError (ustr ''string indices must be integers, not '' @ quoted (ustr ''str'')))"
| "getitem v k =
     Inl (TypeError (quoted (type_name v) @ ustr '' object is not subscriptable''))"

text \<open>\<open>v.get(k, default)\<close>: a method of dicts only.\<close>

fun dict_get_default :: "'f json \<Rightarrow> pystr \<Rightarrow> 'f json \<Rightarrow> exn + 'f json" where
  "dict_get_default (JDict items) k d =
     (case map_of items k of None \<Rightarrow> Inr d | Some v \<Rightarrow> Inr v)"
| "dict_get_default v k d =
     Inl (AttributeError (quoted (type_name v) @ ustr '' object has no attribute '' @
       quoted (ustr ''get'')))"

text \<open>\<open>float(v)\<close>.\<close>

fun py_float :: "'f interp \<Rightarrow> 'f json \<Rightarrow> exn + 'f" where
  "py_float env (JFloat f) = Inr f"
| "py_float env (JInt n) = float_of_int env n"
| "py_float env (JBool b) = float_of_int env (if b then 1 else 0)"
| "py_float env (JStr s) = float_of_str env s"
| "py_float env v =
     Inl (TypeError (ustr ''float() argument must be a string or a real number, not '' @
       quoted (type_name v)))"

text \<open>How an f-string renders a JSON value: text as it is, anything else by \<open>str\<close>.\<close>

fun format_json :: "'f interp \<Rightarrow> 'f json \<Rightarrow> pystr" where
  "format_json env (JStr s) = s"
| "format_json env JNull = ustr ''None''"
| "format_json env (JBool b) = (if b then ustr ''True'' else ustr ''False'')"
| "format_json env (JInt n) = str_int n"
| "format_json env v = repr_json env v"

section \<open>The remote service\<close>

text \<open>
  One call of \<open>requests.get\<close>: the URL, the query parameters, the headers and the timeout
  in seconds.
\<close>

record request =
  req_url :: pystr
  req_params :: "(pystr \<times> pystr) list"
  req_headers :: "(pystr \<times> pystr) list"
  req_timeout :: nat

text \<open>
  A response has a status code and a body; \<open>response.json()\<close> parses the body or raises.
\<close>

datatype 'f response = Response (status_code: int) (json: "exn + 'f json")

text \<open>
  The remote service, as the program meets it: in a state \<open>'w\<close> of the world it answers a
  request with a response, or the call raises, and the world moves on. Nothing is assumed
  about it.
\<close>

type_synonym ('w, 'f) service = "'w \<Rightarrow> request \<Rightarrow> (exn + 'f response) \<times> 'w"

text \<open>The state a lookup runs in: the world, and the requests sent so far.\<close>

record 'w net_state =
  world :: 'w
  sent :: "request list"

definition requests_get ::
  "('w, 'f) service \<Rightarrow> request \<Rightarrow> 'w net_state \<Rightarrow> (exn + 'f response) \<times> 'w net_state" where
  "requests_get net rq s =
     (case net (world s) rq of (r, w') \<Rightarrow> (r, \<lparr>world = w', sent = sent s @ [rq]\<rparr>))"

section \<open>Result rows\<close>

text \<open>
  The values of a table cell and of a result field: missing, boolean, integer, float or
  text. A row dict is the list of its items in insertion order.
\<close>

datatype 'f cell = CNone | CBool bool | CInt int | CFloat 'f | CStr pystr

type_synonym 'f pydict = "(pystr \<times> 'f cell) list"

text \<open>\<open>d[k] = v\<close>: a key already there keeps its place, a new key goes to the end.\<close>

fun dict_set :: "pystr \<Rightarrow> 'f cell \<Rightarrow> 'f pydict \<Rightarrow> 'f pydict" where
  "dict_set k v [] = [(k, v)]"
| "dict_set k v ((k', v') # d) = (if k' = k then (k, v) # d else (k', v') # dict_set k v d)"

text \<open>\<open>d.update(other)\<close>: the items of \<open>other\<close> are stored one after the other.\<close>

definition dict_update :: "'f pydict \<Rightarrow> 'f pydict \<Rightarrow> 'f pydict" where
  "dict_update d other = fold (\<lambda>(k, v). dict_set k v) other d"

text \<open>\<open>d.get(k)\<close>: the value, or \<open>None\<close>.\<close>

definition dict_get :: "'f pydict \<Rightarrow> pystr \<Rightarrow> 'f cell option" where
  "dict_get d k = map_of d k"

section \<open>The address lookup of \<open>geocoding.py\<close>\<close>

definition base_url :: pystr where
  "base_url = ustr ''https://api.vworld.kr/req/address?''"

definition headers :: "(pystr \<times> pystr) list" where
  "headers =
     [(ustr ''User-Agent'',
       ustr ''Mozilla/5.0 (Windows NT 10.0; Win64; x64) AppleWebKit/537.36 (KHTML, like Gecko) Chrome/91.0.4472.124 Safari/537.36''),
      (ustr ''Referer'', ustr ''https://share.streamlit.io/'')]"

text \<open>The inner function \<open>get_parms\<close>; \<open>api_key\<close> is the variable it closes over.\<close>

definition get_parms :: "pystr \<Rightarrow> pystr \<Rightarrow> pystr \<Rightarrow> (pystr \<times> pystr) list" where
  "get_parms api_key query type_hint =
     [(ustr ''service'', ustr ''address''),
      (ustr ''request'', ustr ''getcoord''),
      (ustr ''version'', ustr ''2.0''),
      (ustr ''crs'', ustr ''epsg:4326''),
      (ustr ''address'', query),
      (ustr ''refine'', ustr ''true''),
      (ustr ''simple'', ustr ''false''),
      (ustr ''format'', ustr ''json''),
      (ustr ''type'', type_hint),
      (ustr ''key'', api_key)]"

text \<open>
  The request \<open>requests.get(base_url, params=get_parms(address, type_hint),
  headers=headers, timeout=10)\<close>.
\<close>

definition lookup_request :: "pystr \<Rightarrow> pystr \<Rightarrow> pystr \<Rightarrow> request" where
  "lookup_request api_key address type_hint =
     \<lparr>req_url = base_url, req_params = get_parms api_key address type_hint,
      req_headers = headers, req_timeout = 10\<rparr>"

text \<open>The messages of \<open>geocoding.py\<close>, as code points.\<close>

definition msg_http_error :: pystr where
  "msg_http_error = ustr ''HTTP '' @ [0xC5D0, 0xB7EC] @ ustr '': ''"

definition msg_system_error :: pystr where
  "msg_system_error = [0xC2DC, 0xC2A4, 0xD15C] @ ustr '' '' @ [0xC5D0, 0xB7EC] @ ustr '': ''"

definition msg_no_result :: pystr where
  "msg_no_result =
     [0xACB0, 0xACFC] @ ustr '' '' @ [0xC5C6, 0xC74C] @ ustr '' (V-World '' @ [0xC751, 0xB2F5] @
     ustr '' '' @ [0xD655, 0xC778] @ ustr '' '' @ [0xD544, 0xC694] @ ustr '')''"

definition msg_empty_value :: pystr where
  "msg_empty_value = [0xBE48] @ ustr '' '' @ [0xAC12]"

text \<open>\<open>json_data['response']['status']\<close>.\<close>

definition response_status :: "'f json \<Rightarrow> exn + 'f json" where
  "response_status json_data =
     (case getitem json_data (ustr ''response'') of
        Inl e \<Rightarrow> Inl e
      | Inr r \<Rightarrow> getitem r (ustr ''status''))"

text \<open>
  The two lines that both attempts end with on the status \<open>OK\<close>:
  \<open>res = json_data['response']['result']['point']\<close> and the returned dict, whose items
  are evaluated from left to right (\<open>float(res['y'])\<close> before \<open>float(res['x'])\<close>).
\<close>

definition point_result :: "'f interp \<Rightarrow> 'f json \<Rightarrow> exn + 'f pydict" where
  "point_result env json_data =
     (case getitem json_data (ustr ''response'') of Inl e \<Rightarrow> Inl e | Inr r \<Rightarrow>
     (case getitem r (ustr ''result'') of Inl e \<Rightarrow> Inl e | Inr rr \<Rightarrow>
     (case getitem rr (ustr ''point'') of Inl e \<Rightarrow> Inl e | Inr res \<Rightarrow>
     (case getitem res (ustr ''y'') of Inl e \<Rightarrow> Inl e | Inr y \<Rightarrow>
     (case py_float env y of Inl e \<Rightarrow> Inl e | Inr lat \<Rightarrow>
     (case getitem res (ustr ''x'') of Inl e \<Rightarrow> Inl e | Inr x \<Rightarrow>
     (case py_float env x of Inl e \<Rightarrow> Inl e | Inr lng \<Rightarrow>
        Inr [(ustr ''lat'', CFloat lat), (ustr ''lng'', CFloat lng),
             (ustr ''found'', CBool True), (ustr ''level'', CStr (ustr ''exact''))])))))))"

text \<open>
  The body of the \<open>try\<close> block runs to one of three ends: an exception (\<open>Inl e\<close>), a
  \<open>return\<close> (\<open>Inr (Some d)\<close>), or its last line (\<open>Inr None\<close>).
\<close>

type_synonym 'f try_end = "exn + 'f pydict option"

definition returned :: "exn + 'f pydict \<Rightarrow> 'f try_end" where
  "returned r = (case r of Inl e \<Rightarrow> Inl e | Inr d \<Rightarrow> Inr (Some d))"

text \<open>The second attempt, with the type hint \<open>ROAD\<close> (lines 55 to 59).\<close>

definition road_attempt ::
  "'f interp \<Rightarrow> ('w, 'f) service \<Rightarrow> pystr \<Rightarrow> pystr \<Rightarrow> 'w net_state \<Rightarrow>
     'f try_end \<times> 'w net_state" where
  "road_attempt env net address api_key s =
     (case requests_get net (lookup_request api_key address (ustr ''ROAD'')) s of
        (Inl e, s') \<Rightarrow> (Inl e, s')
      | (Inr response, s') \<Rightarrow>
          (case json response of
             Inl e \<Rightarrow> (Inl e, s')
           | Inr json_data \<Rightarrow>
               (case response_status json_data of
                  Inl e \<Rightarrow> (Inl e, s')
                | Inr status \<Rightarrow>
                    if status = JStr (ustr ''OK'')
                    then (returned (point_result env json_data), s')
                    else (Inr None, s'))))"

text \<open>The \<open>try\<close> block (lines 36 to 59): the attempt with the type hint \<open>PARCEL\<close> first.\<close>

definition try_block ::
  "'f interp \<Rightarrow> ('w, 'f) service \<Rightarrow> pystr \<Rightarrow> pystr \<Rightarrow> 'w net_state \<Rightarrow>
     'f try_end \<times> 'w net_state" where
  "try_block env net address api_key s =
     (case requests_get net (lookup_request api_key address (ustr ''PARCEL'')) s of
        (Inl e, s') \<Rightarrow> (Inl e, s')
      | (Inr response, s') \<Rightarrow>
          if status_code response \<noteq> 200
          then (Inr (Some [(ustr ''found'', CBool False),
                  (ustr ''error'', CStr (msg_http_error @ str_int (status_code response)))]), s')
          else
            (case json response of
               Inl e \<Rightarrow> (Inl e, s')
             | Inr json_data \<Rightarrow>
                 (case response_status json_data of
                    Inl e \<Rightarrow> (Inl e, s')
                  | Inr status \<Rightarrow>
                      if status \<noteq> JStr (ustr ''OK'')
                      then road_attempt env net address api_key s'
                      else (returned (point_result env json_data), s'))))"

text \<open>
  \<open>geocoding_latlong(address, api_key)\<close>: the \<open>except Exception\<close> clause turns an
  exception of the block into a dict, and the last line of the function answers when
  the block ran to its end.
\<close>

definition geocoding_latlong ::
  "'f interp \<Rightarrow> ('w, 'f) service \<Rightarrow> pystr \<Rightarrow> pystr \<Rightarrow> 'w net_state \<Rightarrow>
     'f pydict \<times> 'w net_state" where
  "geocoding_latlong env net address api_key s =
     (case try_block env net address api_key s of
        (Inl e, s') \<Rightarrow>
          ([(ustr ''found'', CBool False),
            (ustr ''error'', CStr (msg_system_error @ str_exn e))], s')
      | (Inr (Some d), s') \<Rightarrow> (d, s')
      | (Inr None, s') \<Rightarrow>
          ([(ustr ''found'', CBool False), (ustr ''error'', CStr msg_no_result)], s'))"

section \<open>The address lookup of the checkpoint copy\<close>

text \<open>
  \<open>.ipynb_checkpoints/geocoding-checkpoint.py\<close> holds a second copy of the program. Its
  lookup asks for another reference system, sends another user agent, words its messages
  differently, and answers a service status other than \<open>OK\<close> and \<open>NOT_FOUND\<close> with that
  status.
\<close>

definition headers_checkpoint :: "(pystr \<times> pystr) list" where
  "headers_checkpoint =
     [(ustr ''User-Agent'',
       ustr ''Mozilla/5.0 (Windows NT 10.0; Win64; x64) Chrome/91.0.4472.124 Safari/537.36''),
      (ustr ''Referer'', ustr ''https://share.streamlit.io/'')]"

definition get_parms_checkpoint :: "pystr \<Rightarrow> pystr \<Rightarrow> pystr \<Rightarrow> (pystr \<times> pystr) list" where
  "get_parms_checkpoint api_key query type_hint =
     [(ustr ''service'', ustr ''address''),
      (ustr ''request'', ustr ''getcoord''),
      (ustr ''version'', ustr ''2.0''),
      (ustr ''crs'', ustr ''epsg:4019''),
      (ustr ''address'', query),
      (ustr ''refine'', ustr ''true''),
      (ustr ''simple'', ustr ''false''),
      (ustr ''format'', ustr ''json''),
      (ustr ''type'', type_hint),
      (ustr ''key'', api_key)]"

definition lookup_request_checkpoint :: "pystr \<Rightarrow> pystr \<Rightarrow> pystr \<Rightarrow> request" where
  "lookup_request_checkpoint api_key address type_hint =
     \<lparr>req_url = base_url, req_params = get_parms_checkpoint api_key address type_hint,
      req_headers = headers_checkpoint, req_timeout = 10\<rparr>"

definition msg_http_error_checkpoint :: pystr where
  "msg_http_error_checkpoint =
     ustr ''HTTP '' @ [0xC811, 0xC18D] @ ustr '' '' @ [0xC624, 0xB958] @ ustr '' (''"

definition msg_api_error :: pystr where
  "msg_api_error = ustr ''API '' @ [0xC5D0, 0xB7EC] @ ustr '': ''"

definition msg_unknown_address :: pystr where
  "msg_unknown_address =
     [0xC8FC, 0xC18C] @ ustr '' '' @ [0xBD88, 0xBA85] @ ustr '' ('' @ [0xACB0, 0xACFC] @
     ustr '' '' @ [0xC5C6, 0xC74C] @ ustr '')''"

text \<open>
  \<open>msg = data['response'].get('text', '')\<close> and the dict returned with it, for a status
  that is neither \<open>OK\<close> nor \<open>NOT_FOUND\<close>.
\<close>

definition api_error_result :: "'f interp \<Rightarrow> 'f json \<Rightarrow> 'f json \<Rightarrow> exn + 'f pydict" where
  "api_error_result env data status =
     (case getitem data (ustr ''response'') of Inl e \<Rightarrow> Inl e | Inr r \<Rightarrow>
     (case dict_get_default r (ustr ''text'') (JStr []) of Inl e \<Rightarrow> Inl e | Inr msg \<Rightarrow>
        Inr [(ustr ''found'', CBool False),
             (ustr ''error'', CStr (msg_api_error @ format_json env status @ ustr '' ('' @
                format_json env msg @ ustr '')''))]))"

definition road_attempt_checkpoint ::
  "'f interp \<Rightarrow> ('w, 'f) service \<Rightarrow> pystr \<Rightarrow> pystr \<Rightarrow> 'w net_state \<Rightarrow>
     'f try_end \<times> 'w net_state" where
  "road_attempt_checkpoint env net address api_key s =
     (case requests_get net (lookup_request_checkpoint api_key address (ustr ''ROAD'')) s of
        (Inl e, s') \<Rightarrow> (Inl e, s')
      | (Inr response, s') \<Rightarrow>
          (case json response of
             Inl e \<Rightarrow> (Inl e, s')
           | Inr data \<Rightarrow>
               (case response_status data of
                  Inl e \<Rightarrow> (Inl e, s')
                | Inr status \<Rightarrow>
                    if status = JStr (ustr ''OK'')
                    then (returned (point_result env data), s')
                    else if status \<noteq> JStr (ustr ''NOT_FOUND'')
                    then (returned (api_error_result env data status), s')
                    else (Inr None, s'))))"

definition try_block_checkpoint ::
  "'f interp \<Rightarrow> ('w, 'f) service \<Rightarrow> pystr \<Rightarrow> pystr \<Rightarrow> 'w net_state \<Rightarrow>
     'f try_end \<times> 'w net_state" where
  "try_block_checkpoint env net address api_key s =
     (case requests_get net (lookup_request_checkpoint api_key address (ustr ''PARCEL'')) s of
        (Inl e, s') \<Rightarrow> (Inl e, s')
      | (Inr response, s') \<Rightarrow>
          if status_code response \<noteq> 200
          then (Inr (Some [(ustr ''found'', CBool False),
                  (ustr ''error'', CStr (msg_http_error_checkpoint @
                     str_int (status_code response) @ ustr '')''))]), s')
          else
            (case json response of
               Inl e \<Rightarrow> (Inl e, s')
             | Inr data \<Rightarrow>
                 (case response_status data of
                    Inl e \<Rightarrow> (Inl e, s')
                  | Inr status \<Rightarrow>
                      if status = JStr (ustr ''OK'')
                      then (returned (point_result env data), s')
                      else if status = JStr (ustr ''NOT_FOUND'')
                      then road_attempt_checkpoint env net address api_key s'
                      else (returned (api_error_result env data status), s'))))"

definition geocoding_latlong_checkpoint ::
  "'f interp \<Rightarrow> ('w, 'f) service \<Rightarrow> pystr \<Rightarrow> pystr \<Rightarrow> 'w net_state \<Rightarrow>
     'f pydict \<times> 'w net_state" where
  "geocoding_latlong_checkpoint env net address api_key s =
     (case try_block_checkpoint env net address api_key s of
        (Inl e, s') \<Rightarrow>
          ([(ustr ''found'', CBool False),
            (ustr ''error'', CStr (msg_system_error @ str_exn e))], s')
      | (Inr (Some d), s') \<Rightarrow> (d, s')
      | (Inr None, s') \<Rightarrow>
          ([(ustr ''found'', CBool False), (ustr ''error'', CStr msg_unknown_address)], s'))"

section \<open>One row\<close>

text \<open>
  A row of the table is a pandas \<open>Series\<close>: the column labels with the cell values, in
  column order. \<open>series_at row k\<close> lists the values under the label \<open>k\<close>.
\<close>

type_synonym 'f series = "(pystr \<times> 'f cell) list"

definition series_at :: "'f series \<Rightarrow> pystr \<Rightarrow> 'f cell list" where
  "series_at row k = map snd (filter (\<lambda>(l, v). l = k) row)"

text \<open>\<open>row.to_dict()\<close>: the items in order; of two equal labels the later value stays.\<close>

definition series_to_dict :: "'f series \<Rightarrow> 'f pydict" where
  "series_to_dict row = dict_update [] row"

text \<open>\<open>pd.isna\<close> on a cell: \<open>None\<close> and the float NaN are missing values.\<close>

fun pd_isna :: "'f interp \<Rightarrow> 'f cell \<Rightarrow> bool" where
  "pd_isna env CNone = True"
| "pd_isna env (CFloat f) = float_isnan env f"
| "pd_isna env _ = False"

text \<open>\<open>str\<close> of a cell.\<close>

fun py_str :: "'f interp \<Rightarrow> 'f cell \<Rightarrow> pystr" where
  "py_str env (CStr s) = s"
| "py_str env (CInt n) = str_int n"
| "py_str env (CBool b) = (if b then ustr ''True'' else ustr ''False'')"
| "py_str env (CFloat f) = str_float env f"
| "py_str env CNone = ustr ''None''"

text \<open>
  Lines 72 to 75 of \<open>process_row\<close>: the outcome \<open>res\<close> for the address cell. The lookup
  is called only in the \<open>else\<close> branch.
\<close>

definition row_outcome ::
  "'f interp \<Rightarrow> ('w, 'f) service \<Rightarrow> 'f cell \<Rightarrow> pystr \<Rightarrow> 'w net_state \<Rightarrow>
     'f pydict \<times> 'w net_state" where
  "row_outcome env net addr api_key s =
     (if pd_isna env addr \<or> py_strip (py_str env addr) = []
      then ([(ustr ''found'', CBool False), (ustr ''error'', CStr msg_empty_value)], s)
      else geocoding_latlong env net (py_str env addr) api_key s)"

text \<open>
  \<open>process_row(row, addr_col, api_key)\<close>. \<open>row[addr_col]\<close> raises \<open>KeyError\<close> for a label
  the row does not have; for a label it has more than once it is a \<open>Series\<close>, whose truth
  value the \<open>if\<close> asks for, which raises \<open>ValueError\<close>.
\<close>

definition process_row ::
  "'f interp \<Rightarrow> ('w, 'f) service \<Rightarrow> 'f series \<Rightarrow> pystr \<Rightarrow> pystr \<Rightarrow> 'w net_state \<Rightarrow>
     (exn + 'f pydict) \<times> 'w net_state" where
  "process_row env net row addr_col api_key s =
     (case series_at row addr_col of
        [] \<Rightarrow> (Inl (KeyError addr_col), s)
      | [addr] \<Rightarrow>
          (case row_outcome env net addr api_key s of
             (res, s') \<Rightarrow> (Inr (dict_update (series_to_dict row) res), s'))
      | _ \<Rightarrow> (Inl (ValueError (ustr ''The truth value of a Series is ambiguous. Use a.empty, a.bool(), a.item(), a.any() or a.all().'')), s))"

section \<open>The batch\<close>

text \<open>
  \<open>pyproj\<close> is not part of the program: \<open>Transformer.from_crs(src, dst).transform(a, b)\<close>
  is a parameter, which answers with a pair or raises.
\<close>

type_synonym 'f transformer =
  "pystr \<Rightarrow> pystr \<Rightarrow> 'f cell \<Rightarrow> 'f cell \<Rightarrow> exn + 'f cell \<times> 'f cell"

definition convert_tm :: "'f transformer \<Rightarrow> 'f cell \<Rightarrow> 'f cell \<Rightarrow> exn + 'f cell \<times> 'f cell" where
  "convert_tm from_crs lat lng =
     (case from_crs (ustr ''EPSG:4326'') (ustr ''EPSG:5186'') lat lng of
        Inl e \<Rightarrow> Inl e
      | Inr (TMY, TMX) \<Rightarrow> Inr (TMX, TMY))"

text \<open>The truth value of what \<open>row_result.get('found')\<close> returns.\<close>

fun truthy :: "'f interp \<Rightarrow> 'f cell option \<Rightarrow> bool" where
  "truthy env None = False"
| "truthy env (Some CNone) = False"
| "truthy env (Some (CBool b)) = b"
| "truthy env (Some (CInt n)) = (n \<noteq> 0)"
| "truthy env (Some (CFloat f)) = float_truthy env f"
| "truthy env (Some (CStr s)) = (s \<noteq> [])"

text \<open>\<open>d[k]\<close> on a row dict.\<close>

definition dict_item :: "'f pydict \<Rightarrow> pystr \<Rightarrow> exn + 'f cell" where
  "dict_item d k = (case map_of d k of None \<Rightarrow> Inl (KeyError k) | Some v \<Rightarrow> Inr v)"

text \<open>Lines 160 to 163: a found row gets its projected coordinates.\<close>

definition add_tm :: "'f interp \<Rightarrow> 'f transformer \<Rightarrow> 'f pydict \<Rightarrow> exn + 'f pydict" where
  "add_tm env from_crs row_result =
     (if truthy env (dict_get row_result (ustr ''found''))
      then
        (case dict_item row_result (ustr ''lat'') of Inl e \<Rightarrow> Inl e | Inr lat \<Rightarrow>
        (case dict_item row_result (ustr ''lng'') of Inl e \<Rightarrow> Inl e | Inr lng \<Rightarrow>
        (case convert_tm from_crs lat lng of Inl e \<Rightarrow> Inl e | Inr (tm_x, tm_y) \<Rightarrow>
           Inr (dict_set (ustr ''TMY'') tm_y (dict_set (ustr ''TMX'') tm_x row_result)))))
      else Inr row_result)"

text \<open>
  The loop over \<open>as_completed\<close> (lines 156 to 171), run on the futures in the order they
  complete. \<open>future.result()\<close> raises what the task raised, and nothing in the loop
  catches it.
\<close>

record 'f batch_state =
  results :: "'f pydict list"
  completed_count :: nat

fun collect ::
  "'f interp \<Rightarrow> 'f transformer \<Rightarrow> (exn + 'f pydict) list \<Rightarrow> 'f batch_state \<Rightarrow>
     exn + 'f batch_state" where
  "collect env from_crs [] st = Inr st"
| "collect env from_crs (future # rest) st =
     (case future of
        Inl e \<Rightarrow> Inl e
      | Inr row_result \<Rightarrow>
          (case add_tm env from_crs row_result of
             Inl e \<Rightarrow> Inl e
           | Inr row_result' \<Rightarrow>
               collect env from_crs rest
                 (st\<lparr>results := results st @ [row_result'],
                     completed_count := completed_count st + 1\<rparr>)))"

text \<open>
  The tasks run on worker threads, so which answers a task's requests meet depends on the
  schedule: task \<open>i\<close> is given its own state of the world \<open>view i\<close>. \<open>submit_all\<close> is the
  dict comprehension of line 153 with each future standing for what its task returns.
\<close>

definition submit_all ::
  "'f interp \<Rightarrow> ('w, 'f) service \<Rightarrow> (nat \<Rightarrow> 'w) \<Rightarrow> 'f series list \<Rightarrow> pystr \<Rightarrow> pystr \<Rightarrow>
     (exn + 'f pydict) list" where
  "submit_all env net view rows addr_col api_key =
     map (\<lambda>i. fst (process_row env net (rows ! i) addr_col api_key
                      \<lparr>world = view i, sent = []\<rparr>)) [0..<length rows]"

text \<open>
  The batch of lines 145 to 174. \<open>order\<close> lists the indices of the futures as
  \<open>as_completed\<close> yields them: every submitted future once.
\<close>

definition run_batch ::
  "'f interp \<Rightarrow> ('w, 'f) service \<Rightarrow> 'f transformer \<Rightarrow> (nat \<Rightarrow> 'w) \<Rightarrow> 'f series list \<Rightarrow>
     pystr \<Rightarrow> pystr \<Rightarrow> nat list \<Rightarrow> exn + 'f pydict list" where
  "run_batch env net from_crs view rows addr_col api_key order =
     (let futures = submit_all env net view rows addr_col api_key in
      case collect env from_crs (map (\<lambda>j. futures ! j) order)
             \<lparr>results = [], completed_count = 0\<rparr> of
        Inl e \<Rightarrow> Inl e
      | Inr st \<Rightarrow> Inr (results st))"

section \<open>Doubles for the remote service and the interpreter\<close>

text \<open>
  A scripted service: the world is the list of the answers still to give, and each request
  takes the next one, whatever it asks.
\<close>

fun scripted :: "((exn + 'f response) list, 'f) service" where
  "scripted [] rq = (Inl (RequestException (ustr ''no answer left'')), [])"
| "scripted (r # rs) rq = (r, rs)"

text \<open>The body \<open>{"response": {"status": status, "result": {"point": {"x": x, "y": y}}}}\<close>.\<close>

definition point_body :: "pystr \<Rightarrow> 'f \<Rightarrow> 'f \<Rightarrow> 'f json" where
  "point_body status x y =
     JDict [(ustr ''response'',
       JDict [(ustr ''status'', JStr status),
              (ustr ''result'',
                 JDict [(ustr ''point'', JDict [(ustr ''x'', JFloat x), (ustr ''y'', JFloat y)])])])]"

text \<open>The body \<open>{"response": {"status": status, "text": text}}\<close>.\<close>

definition status_body :: "pystr \<Rightarrow> pystr \<Rightarrow> 'f json" where
  "status_body status text =
     JDict [(ustr ''response'', JDict [(ustr ''status'', JStr status), (ustr ''text'', JStr text)])]"

text \<open>An interpreter whose floats are stood for by real numbers.\<close>

definition interp_double :: "real interp" where
  "interp_double =
     \<lparr>float_of_int = (\<lambda>n. Inr (of_int n)),
      float_of_str = (\<lambda>s. Inl (ValueError (ustr ''could not convert string to float''))),
      float_isnan = (\<lambda>f. False),
      float_truthy = (\<lambda>f. f \<noteq> 0),
      str_float = (\<lambda>f. ustr ''?''),
      repr_json = (\<lambda>v. ustr ''?'')\<rparr>"

text \<open>A transformer that swaps its arguments, whatever the reference systems.\<close>

definition swap_transformer :: "'f transformer" where
  "swap_transformer src dst a b = Inr (b, a)"


section \<open>Facts about the lookup\<close>

lemma ustr_eq_iff [simp]: "ustr a = ustr b \<longleftrightarrow> a = b"
  by (simp add: ustr_def inj_map_eq_map[OF inj_of_char])

lemma requests_get_eq:
  "requests_get net rq s =
     (fst (net (world s) rq), \<lparr>world = snd (net (world s) rq), sent = sent s @ [rq]\<rparr>)"
  by (simp add: requests_get_def split: prod.splits)

lemma road_attempt_sent:
  "sent (snd (road_attempt env net address api_key s)) =
     sent s @ [lookup_request api_key address (ustr ''ROAD'')]"
  by (simp add: road_attempt_def requests_get_eq split: prod.splits sum.splits)

lemma try_block_sent:
  "sent (snd (try_block env net address api_key s)) =
     sent s @ [lookup_request api_key address (ustr ''PARCEL'')] \<or>
   sent (snd (try_block env net address api_key s)) =
     sent s @ [lookup_request api_key address (ustr ''PARCEL''),
               lookup_request api_key address (ustr ''ROAD'')]"
  by (simp add: try_block_def requests_get_eq road_attempt_sent split: prod.splits sum.splits)

lemma geocoding_latlong_snd:
  "snd (geocoding_latlong env net address api_key s) = snd (try_block env net address api_key s)"
  by (simp add: geocoding_latlong_def split: prod.splits sum.splits option.splits)

lemma try_block_one:
  assumes "fst (net (world s) (lookup_request api_key address (ustr ''PARCEL''))) = Inr response"
    and "status_code response \<noteq> 200 \<or>
         (\<exists>json_data. json response = Inr json_data \<and>
            response_status json_data = Inr (JStr (ustr ''OK'')))"
  shows "sent (snd (try_block env net address api_key s)) =
     sent s @ [lookup_request api_key address (ustr ''PARCEL'')]"
  using assms
  by (auto simp add: try_block_def requests_get_eq split: prod.splits sum.splits)

text \<open>The dicts a lookup can return.\<close>

lemma point_result_form:
  "point_result env json_data = Inr d \<Longrightarrow>
     \<exists>lat lng. d = [(ustr ''lat'', CFloat lat), (ustr ''lng'', CFloat lng),
                    (ustr ''found'', CBool True), (ustr ''level'', CStr (ustr ''exact''))]"
  by (auto simp: point_result_def split: sum.splits)

lemma road_attempt_form:
  "fst (road_attempt env net address api_key s) = Inr (Some d) \<Longrightarrow>
     \<exists>lat lng. d = [(ustr ''lat'', CFloat lat), (ustr ''lng'', CFloat lng),
                    (ustr ''found'', CBool True), (ustr ''level'', CStr (ustr ''exact''))]"
  by (auto simp: road_attempt_def requests_get_eq returned_def
      split: prod.splits sum.splits if_splits dest: point_result_form)

lemma try_block_form:
  assumes "fst (try_block env net address api_key s) = Inr (Some d)"
  shows "(\<exists>lat lng. d = [(ustr ''lat'', CFloat lat), (ustr ''lng'', CFloat lng),
                    (ustr ''found'', CBool True), (ustr ''level'', CStr (ustr ''exact''))]) \<or>
         (\<exists>msg. d = [(ustr ''found'', CBool False), (ustr ''error'', CStr msg)])"
  using assms
  by (auto simp: try_block_def requests_get_eq returned_def
      split: prod.splits sum.splits if_splits dest: point_result_form road_attempt_form)

lemma geocoding_latlong_fst:
  "fst (geocoding_latlong env net address api_key s) =
     (case fst (try_block env net address api_key s) of
        Inl e \<Rightarrow> [(ustr ''found'', CBool False),
                  (ustr ''error'', CStr (msg_system_error @ str_exn e))]
      | Inr None \<Rightarrow> [(ustr ''found'', CBool False), (ustr ''error'', CStr msg_no_result)]
      | Inr (Some d) \<Rightarrow> d)"
  by (simp add: geocoding_latlong_def split: prod.splits sum.splits option.splits)

lemma geocoding_latlong_form:
  "(\<exists>lat lng. fst (geocoding_latlong env net address api_key s) =
       [(ustr ''lat'', CFloat lat), (ustr ''lng'', CFloat lng),
        (ustr ''found'', CBool True), (ustr ''level'', CStr (ustr ''exact''))]) \<or>
   (\<exists>msg. fst (geocoding_latlong env net address api_key s) =
       [(ustr ''found'', CBool False), (ustr ''error'', CStr msg)])"
proof (cases "fst (try_block env net address api_key s)")
  case (Inl e)
  then show ?thesis
    by (simp add: geocoding_latlong_fst)
next
  case (Inr r)
  show ?thesis
  proof (cases r)
    case None
    with Inr show ?thesis
      by (simp add: geocoding_latlong_fst)
  next
    case (Some d)
    with Inr have "fst (geocoding_latlong env net address api_key s) = d"
      by (simp add: geocoding_latlong_fst)
    with try_block_form[of env net address api_key s d] Inr Some show ?thesis
      by simp
  qed
qed

section \<open>The lookup on the answers of the service\<close>

text \<open>
  C3. When the first query (type hint \<open>PARCEL\<close>) is answered with HTTP 200 and a body whose
  status is \<open>OK\<close> and whose point has the floats \<open>x\<close> and \<open>y\<close>, \<open>geocoding_latlong\<close> returns
  the found dict with \<open>lat\<close> taken from \<open>y\<close> and \<open>lng\<close> from \<open>x\<close>, at level \<open>exact\<close>, and
  has sent exactly that one request.
\<close>

theorem parcel_ok_resolves:
  assumes "net (world s) (lookup_request api_key address (ustr ''PARCEL'')) =
             (Inr (Response 200 (Inr json_data)), w')"
    and "getitem json_data (ustr ''response'') = Inr r"
    and "getitem r (ustr ''status'') = Inr (JStr (ustr ''OK''))"
    and "getitem r (ustr ''result'') = Inr rr"
    and "getitem rr (ustr ''point'') = Inr res"
    and "getitem res (ustr ''x'') = Inr (JFloat x)"
    and "getitem res (ustr ''y'') = Inr (JFloat y)"
  shows "geocoding_latlong env net address api_key s =
           ([(ustr ''lat'', CFloat y), (ustr ''lng'', CFloat x),
             (ustr ''found'', CBool True), (ustr ''level'', CStr (ustr ''exact''))],
            \<lparr>world = w', sent = sent s @ [lookup_request api_key address (ustr ''PARCEL'')]\<rparr>)"
  using assms
  by (simp add: geocoding_latlong_def try_block_def requests_get_def response_status_def
      point_result_def returned_def)

theorem parcel_ok_resolves_witness:
  "geocoding_latlong interp_double scripted (ustr ''Seoul'') (ustr ''key'')
     \<lparr>world = [Inr (Response 200 (Inr (point_body (ustr ''OK'') 127.0 37.5)))], sent = []\<rparr> =
   ([(ustr ''lat'', CFloat 37.5), (ustr ''lng'', CFloat 127.0),
     (ustr ''found'', CBool True), (ustr ''level'', CStr (ustr ''exact''))],
    \<lparr>world = [], sent = [lookup_request (ustr ''key'') (ustr ''Seoul'') (ustr ''PARCEL'')]\<rparr>)"
proof -
  define s0 :: "(exn + real response) list net_state"
    where "s0 = \<lparr>world = [Inr (Response 200 (Inr (point_body (ustr ''OK'') 127.0 37.5)))],
                 sent = []\<rparr>"
  have "geocoding_latlong interp_double scripted (ustr ''Seoul'') (ustr ''key'') s0 =
     ([(ustr ''lat'', CFloat 37.5), (ustr ''lng'', CFloat 127.0),
       (ustr ''found'', CBool True), (ustr ''level'', CStr (ustr ''exact''))],
      \<lparr>world = [],
       sent = sent s0 @ [lookup_request (ustr ''key'') (ustr ''Seoul'') (ustr ''PARCEL'')]\<rparr>)"
    by (rule parcel_ok_resolves
          [where json_data = "point_body (ustr ''OK'') 127.0 37.5"
             and r = "JDict [(ustr ''status'', JStr (ustr ''OK'')),
                 (ustr ''result'',
                    JDict [(ustr ''point'',
                      JDict [(ustr ''x'', JFloat 127.0), (ustr ''y'', JFloat 37.5)])])]"
             and rr = "JDict [(ustr ''point'',
                      JDict [(ustr ''x'', JFloat 127.0), (ustr ''y'', JFloat 37.5)])]"
             and res = "JDict [(ustr ''x'', JFloat 127.0), (ustr ''y'', JFloat 37.5)]"])
       (simp_all add: s0_def point_body_def)
  then show ?thesis by (simp add: s0_def)
qed

text \<open>
  C4. When the first query is answered with HTTP 200 and the status \<open>NOT_FOUND\<close>, and the
  second query (type hint \<open>ROAD\<close>) with the status \<open>OK\<close> and a point with the floats \<open>x\<close>
  and \<open>y\<close>, \<open>geocoding_latlong\<close> returns the found dict with \<open>lat\<close> taken from \<open>y\<close> and
  \<open>lng\<close> from \<open>x\<close>, and has sent exactly the two requests.
\<close>

theorem road_ok_resolves:
  assumes "net (world s) (lookup_request api_key address (ustr ''PARCEL'')) =
             (Inr (Response 200 (Inr json_data)), w')"
    and "getitem json_data (ustr ''response'') = Inr r"
    and "getitem r (ustr ''status'') = Inr (JStr (ustr ''NOT_FOUND''))"
    and "net w' (lookup_request api_key address (ustr ''ROAD'')) =
             (Inr (Response code (Inr road_data)), w'')"
    and "getitem road_data (ustr ''response'') = Inr road_r"
    and "getitem road_r (ustr ''status'') = Inr (JStr (ustr ''OK''))"
    and "getitem road_r (ustr ''result'') = Inr rr"
    and "getitem rr (ustr ''point'') = Inr res"
    and "getitem res (ustr ''x'') = Inr (JFloat x)"
    and "getitem res (ustr ''y'') = Inr (JFloat y)"
  shows "geocoding_latlong env net address api_key s =
           ([(ustr ''lat'', CFloat y), (ustr ''lng'', CFloat x),
             (ustr ''found'', CBool True), (ustr ''level'', CStr (ustr ''exact''))],
            \<lparr>world = w'',
             sent = sent s @ [lookup_request api_key address (ustr ''PARCEL''),
                              lookup_request api_key address (ustr ''ROAD'')]\<rparr>)"
  using assms
  by (simp add: geocoding_latlong_def try_block_def road_attempt_def requests_get_def
      response_status_def point_result_def returned_def)

theorem road_ok_resolves_witness:
  "geocoding_latlong interp_double scripted (ustr ''Seoul'') (ustr ''key'')
     \<lparr>world = [Inr (Response 200 (Inr (status_body (ustr ''NOT_FOUND'') []))),
               Inr (Response 200 (Inr (point_body (ustr ''OK'') 127.1 37.6)))], sent = []\<rparr> =
   ([(ustr ''lat'', CFloat 37.6), (ustr ''lng'', CFloat 127.1),
     (ustr ''found'', CBool True), (ustr ''level'', CStr (ustr ''exact''))],
    \<lparr>world = [],
     sent = [lookup_request (ustr ''key'') (ustr ''Seoul'') (ustr ''PARCEL''),
             lookup_request (ustr ''key'') (ustr ''Seoul'') (ustr ''ROAD'')]\<rparr>)"
proof -
  define s0 :: "(exn + real response) list net_state"
    where "s0 = \<lparr>world = [Inr (Response 200 (Inr (status_body (ustr ''NOT_FOUND'') []))),
                          Inr (Response 200 (Inr (point_body (ustr ''OK'') 127.1 37.6)))],
                 sent = []\<rparr>"
  have "geocoding_latlong interp_double scripted (ustr ''Seoul'') (ustr ''key'') s0 =
     ([(ustr ''lat'', CFloat 37.6), (ustr ''lng'', CFloat 127.1),
       (ustr ''found'', CBool True), (ustr ''level'', CStr (ustr ''exact''))],
      \<lparr>world = [],
       sent = sent s0 @ [lookup_request (ustr ''key'') (ustr ''Seoul'') (ustr ''PARCEL''),
                        lookup_request (ustr ''key'') (ustr ''Seoul'') (ustr ''ROAD'')]\<rparr>)"
    by (rule road_ok_resolves
          [where w' = "[Inr (Response 200 (Inr (point_body (ustr ''OK'') 127.1 37.6)))]"
             and json_data = "status_body (ustr ''NOT_FOUND'') []"
             and road_data = "point_body (ustr ''OK'') 127.1 37.6"
             and r = "JDict [(ustr ''status'', JStr (ustr ''NOT_FOUND'')), (ustr ''text'', JStr [])]"
             and road_r = "JDict [(ustr ''status'', JStr (ustr ''OK'')),
                 (ustr ''result'',
                    JDict [(ustr ''point'',
                      JDict [(ustr ''x'', JFloat 127.1), (ustr ''y'', JFloat 37.6)])])]"
             and rr = "JDict [(ustr ''point'',
                      JDict [(ustr ''x'', JFloat 127.1), (ustr ''y'', JFloat 37.6)])]"
             and res = "JDict [(ustr ''x'', JFloat 127.1), (ustr ''y'', JFloat 37.6)]"])
       (simp_all add: s0_def point_body_def status_body_def)
  then show ?thesis by (simp add: s0_def)
qed

text \<open>
  C8. One call of \<open>geocoding_latlong\<close> sends the \<open>PARCEL\<close> request, or the \<open>PARCEL\<close> request
  and then the \<open>ROAD\<close> request, and nothing else: at most two requests. It sends the
  \<open>PARCEL\<close> request alone when the answer to it has a status code other than 200, or has
  the code 200 and a body with the status \<open>OK\<close>.
\<close>

theorem at_most_two_requests:
  "(sent (snd (geocoding_latlong env net address api_key s)) =
      sent s @ [lookup_request api_key address (ustr ''PARCEL'')] \<or>
    sent (snd (geocoding_latlong env net address api_key s)) =
      sent s @ [lookup_request api_key address (ustr ''PARCEL''),
                lookup_request api_key address (ustr ''ROAD'')]) \<and>
   length (sent (snd (geocoding_latlong env net address api_key s))) \<le> length (sent s) + 2 \<and>
   (fst (net (world s) (lookup_request api_key address (ustr ''PARCEL''))) = Inr response \<and>
    (status_code response \<noteq> 200 \<or>
     (\<exists>json_data. json response = Inr json_data \<and>
        response_status json_data = Inr (JStr (ustr ''OK'')))) \<longrightarrow>
    length (sent (snd (geocoding_latlong env net address api_key s))) = length (sent s) + 1)"
proof -
  let ?s' = "snd (geocoding_latlong env net address api_key s)"
  have two: "sent ?s' = sent s @ [lookup_request api_key address (ustr ''PARCEL'')] \<or>
      sent ?s' = sent s @ [lookup_request api_key address (ustr ''PARCEL''),
                           lookup_request api_key address (ustr ''ROAD'')]"
    using try_block_sent[of env net address api_key s] by (simp add: geocoding_latlong_snd)
  then have bound: "length (sent ?s') \<le> length (sent s) + 2"
    by auto
  have one: "length (sent ?s') = length (sent s) + 1"
    if "fst (net (world s) (lookup_request api_key address (ustr ''PARCEL''))) = Inr response"
      and "status_code response \<noteq> 200 \<or>
        (\<exists>json_data. json response = Inr json_data \<and>
           response_status json_data = Inr (JStr (ustr ''OK'')))"
    using that try_block_one[of net s api_key address response env]
    by (simp add: geocoding_latlong_snd)
  from two bound one show ?thesis by blast
qed

theorem at_most_two_requests_witness:
  "length (sent (snd (geocoding_latlong interp_double scripted (ustr ''Seoul'') (ustr ''key'')
      \<lparr>world = [Inr (Response 503 (Inl (JSONDecodeError (ustr ''Expecting value''))))],
       sent = []\<rparr>))) = 1"
  using at_most_two_requests [of interp_double scripted "ustr ''Seoul''" "ustr ''key''"
      "\<lparr>world = [Inr (Response 503 (Inl (JSONDecodeError (ustr ''Expecting value''))))], sent = []\<rparr>"
      "Response 503 (Inl (JSONDecodeError (ustr ''Expecting value'')))"]
  by simp

text \<open>
  C5. \<open>geocoding_latlong\<close> always returns a dict: the found one, or a failure dict with a
  message. Whenever the \<open>try\<close> block raises an exception \<open>e\<close>, the dict returned is the
  failure dict whose message is the system-error prefix followed by \<open>str(e)\<close>. The block
  raises \<open>e\<close> when the first request raises it, when parsing the body of the first answer
  raises it, and, once the first answer has a status other than \<open>OK\<close>, when the second
  request or the parsing of its answer's body raises it.
\<close>

theorem lookup_never_raises:
  "((\<exists>lat lng. fst (geocoding_latlong env net address api_key s) =
        [(ustr ''lat'', CFloat lat), (ustr ''lng'', CFloat lng),
         (ustr ''found'', CBool True), (ustr ''level'', CStr (ustr ''exact''))]) \<or>
    (\<exists>msg. fst (geocoding_latlong env net address api_key s) =
        [(ustr ''found'', CBool False), (ustr ''error'', CStr msg)])) \<and>
   (\<forall>e. fst (try_block env net address api_key s) = Inl e \<longrightarrow>
        fst (geocoding_latlong env net address api_key s) =
          [(ustr ''found'', CBool False),
           (ustr ''error'', CStr (msg_system_error @ str_exn e))]) \<and>
   (\<forall>e. fst (net (world s) (lookup_request api_key address (ustr ''PARCEL''))) = Inl e \<or>
        (\<exists>w'. net (world s) (lookup_request api_key address (ustr ''PARCEL'')) =
                (Inr (Response 200 (Inl e)), w')) \<or>
        (\<exists>w' json_data status.
            net (world s) (lookup_request api_key address (ustr ''PARCEL'')) =
              (Inr (Response 200 (Inr json_data)), w') \<and>
            response_status json_data = Inr status \<and> status \<noteq> JStr (ustr ''OK'') \<and>
            (fst (net w' (lookup_request api_key address (ustr ''ROAD''))) = Inl e \<or>
             (\<exists>code. fst (net w' (lookup_request api_key address (ustr ''ROAD''))) =
                Inr (Response code (Inl e))))) \<longrightarrow>
        fst (try_block env net address api_key s) = Inl e)"
proof -
  have form: "(\<exists>lat lng. fst (geocoding_latlong env net address api_key s) =
        [(ustr ''lat'', CFloat lat), (ustr ''lng'', CFloat lng),
         (ustr ''found'', CBool True), (ustr ''level'', CStr (ustr ''exact''))]) \<or>
    (\<exists>msg. fst (geocoding_latlong env net address api_key s) =
        [(ustr ''found'', CBool False), (ustr ''error'', CStr msg)])"
    by (rule geocoding_latlong_form)
  have caught: "fst (geocoding_latlong env net address api_key s) =
          [(ustr ''found'', CBool False),
           (ustr ''error'', CStr (msg_system_error @ str_exn e))]"
    if "fst (try_block env net address api_key s) = Inl e" for e
    using that by (simp add: geocoding_latlong_fst)
  have request1: "fst (try_block env net address api_key s) = Inl e"
    if "fst (net (world s) (lookup_request api_key address (ustr ''PARCEL''))) = Inl e" for e
    using that by (simp add: try_block_def requests_get_eq split: prod.splits)
  have body1: "fst (try_block env net address api_key s) = Inl e"
    if "net (world s) (lookup_request api_key address (ustr ''PARCEL'')) =
                (Inr (Response 200 (Inl e)), w')" for e w'
    using that by (simp add: try_block_def requests_get_def)
  have second: "fst (try_block env net address api_key s) = Inl e"
    if "net (world s) (lookup_request api_key address (ustr ''PARCEL'')) =
              (Inr (Response 200 (Inr json_data)), w')"
      and "response_status json_data = Inr status" and "status \<noteq> JStr (ustr ''OK'')"
      and "fst (net w' (lookup_request api_key address (ustr ''ROAD''))) = Inl e \<or>
             (\<exists>code. fst (net w' (lookup_request api_key address (ustr ''ROAD''))) =
                Inr (Response code (Inl e)))"
    for e w' json_data status
    using that
    by (auto simp: try_block_def road_attempt_def requests_get_def split: prod.splits)
  from form caught request1 body1 second show ?thesis
    by blast
qed


theorem lookup_never_raises_witness:
  "fst (geocoding_latlong interp_double scripted (ustr ''Seoul'') (ustr ''key'')
     \<lparr>world = [Inr (Response 200 (Inr (status_body (ustr ''NOT_FOUND'') []))),
               Inr (Response 200 (Inr (status_body (ustr ''OK'') [])))], sent = []\<rparr>) =
   [(ustr ''found'', CBool False),
    (ustr ''error'', CStr (msg_system_error @ str_exn (KeyError (ustr ''result''))))]"
proof -
  define s0 :: "(exn + real response) list net_state"
    where "s0 = \<lparr>world = [Inr (Response 200 (Inr (status_body (ustr ''NOT_FOUND'') []))),
                          Inr (Response 200 (Inr (status_body (ustr ''OK'') [])))],
                 sent = []\<rparr>"
  have "fst (try_block interp_double scripted (ustr ''Seoul'') (ustr ''key'') s0) =
      Inl (KeyError (ustr ''result''))"
    by (simp add: s0_def try_block_def road_attempt_def requests_get_def response_status_def
        point_result_def returned_def status_body_def)
  with lookup_never_raises [where env = interp_double and net = scripted
      and address = "ustr ''Seoul''" and api_key = "ustr ''key''" and s = s0]
  show ?thesis
    unfolding s0_def by blast
qed

section \<open>The status code of the second answer\<close>








section \<open>A service status other than \<open>OK\<close> and \<open>NOT_FOUND\<close>\<close>

text \<open>
  In \<open>geocoding.py\<close> every status of the first answer other than \<open>OK\<close> leads to the second
  request.
\<close>

lemma parcel_not_ok_sends_road:
  assumes "net (world s) (lookup_request api_key address (ustr ''PARCEL'')) =
             (Inr (Response 200 (Inr json_data)), w')"
    and "response_status json_data = Inr status"
    and "status \<noteq> JStr (ustr ''OK'')"
  shows "sent (snd (geocoding_latlong env net address api_key s)) =
           sent s @ [lookup_request api_key address (ustr ''PARCEL''),
                     lookup_request api_key address (ustr ''ROAD'')]"
  using assms
  by (simp add: geocoding_latlong_snd try_block_def requests_get_def road_attempt_sent)

text \<open>
  In the checkpoint copy such a status ends the lookup after the first request, with a
  message that names the status and the text of the answer.
\<close>

lemma checkpoint_service_error_is_terminal:
  assumes "net (world s) (lookup_request_checkpoint api_key address (ustr ''PARCEL'')) =
             (Inr (Response 200 (Inr (JDict items))), w')"
    and "map_of items (ustr ''response'') = Some (JDict r)"
    and "map_of r (ustr ''status'') = Some status"
    and "status \<noteq> JStr (ustr ''OK'')" and "status \<noteq> JStr (ustr ''NOT_FOUND'')"
  shows "geocoding_latlong_checkpoint env net address api_key s =
           ([(ustr ''found'', CBool False),
             (ustr ''error'', CStr (msg_api_error @ format_json env status @ ustr '' ('' @
                format_json env (case map_of r (ustr ''text'') of None \<Rightarrow> JStr [] | Some t \<Rightarrow> t) @
                ustr '')''))],
            \<lparr>world = w',
             sent = sent s @ [lookup_request_checkpoint api_key address (ustr ''PARCEL'')]\<rparr>)"
  using assms
  by (simp add: geocoding_latlong_checkpoint_def try_block_checkpoint_def requests_get_def
      response_status_def api_error_result_def returned_def split: option.splits)

text \<open>
  C1. The claim asks that a first answer with HTTP 200 and a service status that is
  neither \<open>OK\<close> nor \<open>NOT_FOUND\<close> ends the lookup after one request, with the classified
  service error. On the answer \<open>{"response": {"status": "INVALID_KEY", "text": ...}}\<close>
  \<open>geocoding_latlong\<close> of \<open>geocoding.py\<close> sends the \<open>ROAD\<close> request as well and, the
  second answer being the same, returns the general no-result message, which names
  neither the status nor the text.
\<close>

theorem credential_error_falls_through:
  "geocoding_latlong interp_double scripted (ustr ''Seoul'') (ustr ''bad-key'')
     \<lparr>world = [Inr (Response 200 (Inr (status_body (ustr ''INVALID_KEY'') (ustr ''unregistered key'')))),
               Inr (Response 200 (Inr (status_body (ustr ''INVALID_KEY'') (ustr ''unregistered key''))))],
      sent = []\<rparr> =
   ([(ustr ''found'', CBool False), (ustr ''error'', CStr msg_no_result)],
    \<lparr>world = [],
     sent = [lookup_request (ustr ''bad-key'') (ustr ''Seoul'') (ustr ''PARCEL''),
             lookup_request (ustr ''bad-key'') (ustr ''Seoul'') (ustr ''ROAD'')]\<rparr>)"
  by (simp add: geocoding_latlong_def try_block_def road_attempt_def requests_get_def
      response_status_def status_body_def)

lemma checkpoint_on_credential_error:
  "geocoding_latlong_checkpoint interp_double scripted (ustr ''Seoul'') (ustr ''bad-key'')
     \<lparr>world = [Inr (Response 200 (Inr (status_body (ustr ''INVALID_KEY'') (ustr ''unregistered key'')))),
               Inr (Response 200 (Inr (status_body (ustr ''INVALID_KEY'') (ustr ''unregistered key''))))],
      sent = []\<rparr> =
   ([(ustr ''found'', CBool False),
     (ustr ''error'', CStr (msg_api_error @ ustr ''INVALID_KEY (unregistered key)''))],
    \<lparr>world = [Inr (Response 200 (Inr (status_body (ustr ''INVALID_KEY'') (ustr ''unregistered key''))))],
     sent = [lookup_request_checkpoint (ustr ''bad-key'') (ustr ''Seoul'') (ustr ''PARCEL'')]\<rparr>)"
  by (simp add: geocoding_latlong_checkpoint_def try_block_checkpoint_def requests_get_def
      response_status_def status_body_def api_error_result_def returned_def ustr_def)

section \<open>Facts about row dicts\<close>

lemma map_of_dict_set: "map_of (dict_set k v d) = (map_of d)(k \<mapsto> v)"
  by (induction d) (auto simp: fun_eq_iff)

lemma dict_get_dict_set [simp]:
  "dict_get (dict_set k v d) k' = (if k' = k then Some v else dict_get d k')"
  by (simp add: dict_get_def map_of_dict_set)

lemma dict_update_Nil [simp]: "dict_update d [] = d"
  by (simp add: dict_update_def)

lemma dict_update_Cons [simp]:
  "dict_update d ((k, v) # other) = dict_update (dict_set k v d) other"
  by (simp add: dict_update_def)

lemma map_of_dict_update: "map_of (dict_update d other) = map_of d ++ map_of (rev other)"
proof (induction other arbitrary: d)
  case Nil
  then show ?case by simp
next
  case (Cons kv other)
  obtain k v where kv: "kv = (k, v)" by (cases kv)
  have "map_of (dict_update d (kv # other)) = (map_of d)(k \<mapsto> v) ++ map_of (rev other)"
    unfolding kv dict_update_Cons Cons.IH map_of_dict_set ..
  also have "\<dots> = map_of d ++ map_of (rev (kv # other))"
    by (simp add: kv fun_eq_iff map_add_def split: option.splits)
  finally show ?case .
qed

lemma dict_get_series_to_dict:
  "dict_get (series_to_dict row) k = None \<longleftrightarrow> k \<notin> fst ` set row"
proof -
  have "dom (map_of (series_to_dict row)) = fst ` set row"
    by (simp add: series_to_dict_def map_of_dict_update dom_map_of_conv_image_fst)
  then show ?thesis
    unfolding dict_get_def by (metis domIff)
qed

lemma dict_item_get:
  "dict_item d k = (case dict_get d k of None \<Rightarrow> Inl (KeyError k) | Some v \<Rightarrow> Inr v)"
  by (simp add: dict_item_def dict_get_def)

lemma all_space_strip:
  assumes "\<forall>c\<in>set t. py_isspace c"
  shows "py_strip t = []"
  using assms by (auto simp: py_strip_def dest: set_dropWhileD)

section \<open>Rows without an address\<close>

text \<open>
  C2. When the cell of the address column is missing (\<open>None\<close> or NaN) or is text made of
  white space only, \<open>process_row\<close> returns the row's dict updated with \<open>found = False\<close> and
  the empty-value message, and leaves the state as it was: no request is sent, and
  \<open>geocoding_latlong\<close> is not called.
\<close>

theorem blank_address_skips_lookup:
  assumes "series_at row addr_col = [addr]"
    and "addr = CNone \<or> (\<exists>f. addr = CFloat f \<and> float_isnan env f) \<or>
         (\<exists>t. addr = CStr t \<and> (\<forall>c\<in>set t. py_isspace c))"
  shows "\<exists>row_dict.
           process_row env net row addr_col api_key s = (Inr row_dict, s) \<and>
           row_dict = dict_update (series_to_dict row)
                   [(ustr ''found'', CBool False), (ustr ''error'', CStr msg_empty_value)] \<and>
           dict_get row_dict (ustr ''found'') = Some (CBool False) \<and>
           dict_get row_dict (ustr ''error'') = Some (CStr msg_empty_value)"
proof -
  have "pd_isna env addr \<or> py_strip (py_str env addr) = []"
    using assms(2) by (auto simp: all_space_strip)
  then have "row_outcome env net addr api_key s =
      ([(ustr ''found'', CBool False), (ustr ''error'', CStr msg_empty_value)], s)"
    by (simp add: row_outcome_def)
  then show ?thesis
    using assms(1) by (simp add: process_row_def)
qed

theorem blank_address_skips_lookup_witness:
  "process_row interp_double scripted
     [(ustr ''name'', CStr (ustr ''Kim'')), (ustr ''addr'', CStr [32, 0x3000, 9])]
     (ustr ''addr'') (ustr ''key'')
     \<lparr>world = [Inr (Response 200 (Inr (point_body (ustr ''OK'') 127.0 37.5)))], sent = []\<rparr> =
   (Inr [(ustr ''name'', CStr (ustr ''Kim'')), (ustr ''addr'', CStr [32, 0x3000, 9]),
         (ustr ''found'', CBool False), (ustr ''error'', CStr msg_empty_value)],
    \<lparr>world = [Inr (Response 200 (Inr (point_body (ustr ''OK'') 127.0 37.5)))], sent = []\<rparr>)"
proof -
  have "series_at [(ustr ''name'', CStr (ustr ''Kim'')), (ustr ''addr'', CStr [32, 0x3000, 9])]
      (ustr ''addr'') = [CStr [32, 0x3000, 9] :: real cell]"
    by (simp add: series_at_def)
  moreover have "(CStr [32, 0x3000, 9] :: real cell) = CNone \<or>
      (\<exists>f. CStr [32, 0x3000, 9] = CFloat f \<and> float_isnan interp_double f) \<or>
      (\<exists>t. (CStr [32, 0x3000, 9] :: real cell) = CStr t \<and> (\<forall>c\<in>set t. py_isspace c))"
    by (simp add: py_isspace_def)
  ultimately show ?thesis
    using blank_address_skips_lookup [of
        "[(ustr ''name'', CStr (ustr ''Kim'')), (ustr ''addr'', CStr [32, 0x3000, 9])]"
        "ustr ''addr''" "CStr [32, 0x3000, 9]" interp_double scripted "ustr ''key''"
        "\<lparr>world = [Inr (Response 200 (Inr (point_body (ustr ''OK'') 127.0 37.5)))], sent = []\<rparr>"]
    by (simp add: series_to_dict_def)
qed

section \<open>What a result row holds\<close>

lemma row_outcome_form:
  "(\<exists>lat lng. fst (row_outcome env net addr api_key s) =
       [(ustr ''lat'', CFloat lat), (ustr ''lng'', CFloat lng),
        (ustr ''found'', CBool True), (ustr ''level'', CStr (ustr ''exact''))]) \<or>
   (\<exists>msg. fst (row_outcome env net addr api_key s) =
       [(ustr ''found'', CBool False), (ustr ''error'', CStr msg)])"
  using geocoding_latlong_form [of env net "py_str env addr" api_key s]
  by (simp add: row_outcome_def)

lemma process_row_Inr:
  assumes "process_row env net row addr_col api_key s = (Inr row_dict, s')"
  shows "\<exists>addr. series_at row addr_col = [addr] \<and>
           row_dict = dict_update (series_to_dict row) (fst (row_outcome env net addr api_key s))"
  using assms
  by (auto simp: process_row_def split: list.splits prod.splits)

lemma process_row_total:
  assumes "series_at row addr_col = [addr]"
  shows "fst (process_row env net row addr_col api_key s) =
           Inr (dict_update (series_to_dict row) (fst (row_outcome env net addr api_key s)))"
  using assms by (simp add: process_row_def split: prod.splits)

text \<open>What the loop body makes of a row dict that holds a failure, and of one that holds a point.\<close>

lemma add_tm_unresolved:
  "add_tm env from_crs
     (dict_update d [(ustr ''found'', CBool False), (ustr ''error'', CStr msg)]) =
   Inr (dict_update d [(ustr ''found'', CBool False), (ustr ''error'', CStr msg)])"
  by (simp add: add_tm_def)

lemma add_tm_resolved:
  "add_tm env from_crs
     (dict_update d [(ustr ''lat'', CFloat lat), (ustr ''lng'', CFloat lng),
        (ustr ''found'', CBool True), (ustr ''level'', CStr (ustr ''exact''))]) =
   (case from_crs (ustr ''EPSG:4326'') (ustr ''EPSG:5186'') (CFloat lat) (CFloat lng) of
      Inl e \<Rightarrow> Inl e
    | Inr (TMY, TMX) \<Rightarrow>
        Inr (dict_set (ustr ''TMY'') TMY (dict_set (ustr ''TMX'') TMX
          (dict_update d [(ustr ''lat'', CFloat lat), (ustr ''lng'', CFloat lng),
             (ustr ''found'', CBool True), (ustr ''level'', CStr (ustr ''exact''))]))))"
  by (simp add: add_tm_def dict_item_get convert_tm_def split: sum.splits prod.splits)

text \<open>
  C7. For a row whose labels are none of \<open>found\<close>, \<open>level\<close>, \<open>error\<close>, \<open>lat\<close>, \<open>lng\<close>, \<open>TMX\<close>
  and \<open>TMY\<close>, the result row that the loop body makes of what \<open>process_row\<close> returns has
  \<open>found = True\<close> exactly when it has \<open>lat\<close>, \<open>lng\<close>, \<open>TMX\<close> and \<open>TMY\<close> and no \<open>error\<close>, and
  \<open>found = False\<close> exactly when it has \<open>error\<close> and none of \<open>lat\<close>, \<open>lng\<close>, \<open>TMX\<close>, \<open>TMY\<close>.
\<close>

theorem found_excludes_error:
  assumes "fst ` set row \<inter> {ustr ''found'', ustr ''level'', ustr ''error'', ustr ''lat'',
             ustr ''lng'', ustr ''TMX'', ustr ''TMY''} = {}"
    and "process_row env net row addr_col api_key s = (Inr row_dict, s')"
    and "add_tm env from_crs row_dict = Inr result_row"
  shows "(dict_get result_row (ustr ''found'') = Some (CBool True) \<longleftrightarrow>
            dict_get result_row (ustr ''lat'') \<noteq> None \<and>
            dict_get result_row (ustr ''lng'') \<noteq> None \<and>
            dict_get result_row (ustr ''TMX'') \<noteq> None \<and>
            dict_get result_row (ustr ''TMY'') \<noteq> None \<and>
            dict_get result_row (ustr ''error'') = None) \<and>
         (dict_get result_row (ustr ''found'') = Some (CBool False) \<longleftrightarrow>
            dict_get result_row (ustr ''error'') \<noteq> None \<and>
            dict_get result_row (ustr ''lat'') = None \<and>
            dict_get result_row (ustr ''lng'') = None \<and>
            dict_get result_row (ustr ''TMX'') = None \<and>
            dict_get result_row (ustr ''TMY'') = None)"
proof -
  let ?d = "series_to_dict row"
  have absent: "dict_get ?d (ustr ''found'') = None" "dict_get ?d (ustr ''level'') = None"
    "dict_get ?d (ustr ''error'') = None" "dict_get ?d (ustr ''lat'') = None"
    "dict_get ?d (ustr ''lng'') = None" "dict_get ?d (ustr ''TMX'') = None"
    "dict_get ?d (ustr ''TMY'') = None"
    using assms(1) by (auto simp: dict_get_series_to_dict)
  from process_row_Inr [OF assms(2)] obtain addr
    where row_dict: "row_dict = dict_update ?d (fst (row_outcome env net addr api_key s))"
    by blast
  from row_outcome_form [of env net addr api_key s] show ?thesis
  proof (elim disjE exE)
    fix lat lng
    assume res: "fst (row_outcome env net addr api_key s) =
       [(ustr ''lat'', CFloat lat), (ustr ''lng'', CFloat lng),
        (ustr ''found'', CBool True), (ustr ''level'', CStr (ustr ''exact''))]"
    from assms(3) obtain TMY TMX where
      "result_row = dict_set (ustr ''TMY'') TMY (dict_set (ustr ''TMX'') TMX
          (dict_update ?d [(ustr ''lat'', CFloat lat), (ustr ''lng'', CFloat lng),
             (ustr ''found'', CBool True), (ustr ''level'', CStr (ustr ''exact''))]))"
      unfolding row_dict res add_tm_resolved by (auto split: sum.splits prod.splits)
    then show ?thesis
      by (simp add: absent)
  next
    fix msg
    assume res: "fst (row_outcome env net addr api_key s) =
       [(ustr ''found'', CBool False), (ustr ''error'', CStr msg)]"
    from assms(3) have
      "result_row = dict_update ?d [(ustr ''found'', CBool False), (ustr ''error'', CStr msg)]"
      unfolding row_dict res add_tm_unresolved by simp
    then show ?thesis
      by (simp add: absent)
  qed
qed

theorem found_excludes_error_witness:
  "let result_row =
         [(ustr ''name'', CStr (ustr ''Kim'')), (ustr ''addr'', CStr (ustr ''Seoul'')),
          (ustr ''lat'', CFloat 37.5), (ustr ''lng'', CFloat 127.0), (ustr ''found'', CBool True),
          (ustr ''level'', CStr (ustr ''exact'')), (ustr ''TMX'', CFloat 37.5),
          (ustr ''TMY'', CFloat (127.0 :: real))]
   in (dict_get result_row (ustr ''found'') = Some (CBool True) \<longleftrightarrow>
         dict_get result_row (ustr ''lat'') \<noteq> None \<and>
         dict_get result_row (ustr ''lng'') \<noteq> None \<and>
         dict_get result_row (ustr ''TMX'') \<noteq> None \<and>
         dict_get result_row (ustr ''TMY'') \<noteq> None \<and>
         dict_get result_row (ustr ''error'') = None)"
proof -
  define row :: "real series"
    where "row = [(ustr ''name'', CStr (ustr ''Kim'')), (ustr ''addr'', CStr (ustr ''Seoul''))]"
  define s0 :: "(exn + real response) list net_state"
    where "s0 = \<lparr>world = [Inr (Response 200 (Inr (point_body (ustr ''OK'') 127.0 37.5)))],
                 sent = []\<rparr>"
  define row_dict :: "real pydict"
    where "row_dict = [(ustr ''name'', CStr (ustr ''Kim'')), (ustr ''addr'', CStr (ustr ''Seoul'')),
       (ustr ''lat'', CFloat 37.5), (ustr ''lng'', CFloat 127.0), (ustr ''found'', CBool True),
       (ustr ''level'', CStr (ustr ''exact''))]"
  define result_row :: "real pydict"
    where "result_row = row_dict @ [(ustr ''TMX'', CFloat 37.5), (ustr ''TMY'', CFloat 127.0)]"
  have disjoint: "fst ` set row \<inter> {ustr ''found'', ustr ''level'', ustr ''error'', ustr ''lat'',
             ustr ''lng'', ustr ''TMX'', ustr ''TMY''} = {}"
    by (simp add: row_def)
  have processed: "process_row interp_double scripted row (ustr ''addr'') (ustr ''key'') s0 =
      (Inr row_dict, \<lparr>world = [],
         sent = [lookup_request (ustr ''key'') (ustr ''Seoul'') (ustr ''PARCEL'')]\<rparr>)"
    by (simp add: process_row_def series_at_def row_def row_outcome_def interp_double_def
        py_strip_def py_isspace_def ustr_def series_to_dict_def s0_def row_dict_def
        geocoding_latlong_def try_block_def requests_get_def response_status_def
        point_result_def returned_def point_body_def)
  have added: "add_tm interp_double swap_transformer row_dict = Inr result_row"
    by (simp add: add_tm_def row_dict_def result_row_def dict_get_def dict_item_def
        convert_tm_def swap_transformer_def)
  from found_excludes_error [OF disjoint processed added]
  show ?thesis
    unfolding Let_def result_row_def row_dict_def by simp
qed

section \<open>The result table\<close>

lemma add_tm_total:
  assumes "\<forall>x y. \<exists>p. from_crs (ustr ''EPSG:4326'') (ustr ''EPSG:5186'') (CFloat x) (CFloat y) = Inr p"
  shows "\<exists>result_row.
           add_tm env from_crs (dict_update d (fst (row_outcome env net addr api_key s))) =
             Inr result_row"
  using row_outcome_form [of env net addr api_key s]
proof (elim disjE exE)
  fix lat lng
  assume res: "fst (row_outcome env net addr api_key s) =
       [(ustr ''lat'', CFloat lat), (ustr ''lng'', CFloat lng),
        (ustr ''found'', CBool True), (ustr ''level'', CStr (ustr ''exact''))]"
  from assms obtain p
    where "from_crs (ustr ''EPSG:4326'') (ustr ''EPSG:5186'') (CFloat lat) (CFloat lng) = Inr p"
    by blast
  then show ?thesis
    unfolding res add_tm_resolved by (cases p) simp
next
  fix msg
  assume res: "fst (row_outcome env net addr api_key s) =
       [(ustr ''found'', CBool False), (ustr ''error'', CStr msg)]"
  show ?thesis
    unfolding res add_tm_unresolved by simp
qed

lemma collect_all:
  assumes "\<forall>future\<in>set futures. \<exists>d result_row. future = Inr d \<and> add_tm env from_crs d = Inr result_row"
  shows "\<exists>rs. collect env from_crs futures st =
             Inr \<lparr>results = results st @ rs,
                  completed_count = completed_count st + length futures\<rparr> \<and>
           length rs = length futures \<and>
           (\<forall>k<length futures. \<exists>d. futures ! k = Inr d \<and> add_tm env from_crs d = Inr (rs ! k))"
  using assms
proof (induction futures arbitrary: st)
  case Nil
  then show ?case by simp
next
  case (Cons future rest)
  from Cons.prems obtain d result_row
    where future: "future = Inr d" and added: "add_tm env from_crs d = Inr result_row"
    by auto
  let ?st = "st\<lparr>results := results st @ [result_row],
                completed_count := completed_count st + 1\<rparr>"
  from Cons.IH [of ?st] Cons.prems obtain rs
    where run: "collect env from_crs rest ?st =
             Inr \<lparr>results = results ?st @ rs,
                  completed_count = completed_count ?st + length rest\<rparr>"
      and len: "length rs = length rest"
      and each: "\<forall>k<length rest. \<exists>d. rest ! k = Inr d \<and> add_tm env from_crs d = Inr (rs ! k)"
    by auto
  have "collect env from_crs (future # rest) st =
      Inr \<lparr>results = results st @ (result_row # rs),
           completed_count = completed_count st + length (future # rest)\<rparr>"
    using run by (simp add: future added)
  moreover have "length (result_row # rs) = length (future # rest)"
    using len by simp
  moreover have "\<forall>k<length (future # rest). \<exists>d. (future # rest) ! k = Inr d \<and>
      add_tm env from_crs d = Inr ((result_row # rs) ! k)"
    using each future added by (auto simp: nth_Cons split: nat.splits)
  ultimately show ?case by blast
qed

text \<open>
  C6. Let \<open>order\<close>, the order in which the futures complete, hold every index of the table
  once, let every row have the address column once, and let the transformer answer on
  floats. Then the batch ends with a result table of as many rows as the table has, and
  the result row at position \<open>k\<close> is what the loop body makes of row \<open>order ! k\<close> merged
  with the outcome of that same row's lookup; no index occurs twice in \<open>order\<close> and none
  is left out, so every row of the table is met exactly once.
\<close>

theorem batch_keeps_rows:
  assumes "mset order = mset [0..<length rows]"
    and "\<forall>row\<in>set rows. \<exists>addr. series_at row addr_col = [addr]"
    and "\<forall>x y. \<exists>p. from_crs (ustr ''EPSG:4326'') (ustr ''EPSG:5186'') (CFloat x) (CFloat y) = Inr p"
  shows "\<exists>table.
           run_batch env net from_crs view rows addr_col api_key order = Inr table \<and>
           length table = length rows \<and>
           (\<forall>k<length rows. \<exists>addr.
              series_at (rows ! (order ! k)) addr_col = [addr] \<and>
              add_tm env from_crs
                (dict_update (series_to_dict (rows ! (order ! k)))
                   (fst (row_outcome env net addr api_key
                           \<lparr>world = view (order ! k), sent = []\<rparr>))) = Inr (table ! k)) \<and>
           distinct order \<and> set order = {0..<length rows}"
proof -
  let ?futures = "submit_all env net view rows addr_col api_key"
  let ?merged = "\<lambda>i addr. dict_update (series_to_dict (rows ! i))
      (fst (row_outcome env net addr api_key \<lparr>world = view i, sent = []\<rparr>))"
  have set_order: "set order = {0..<length rows}"
    using assms(1) by (metis mset_eq_setD set_upt)
  have distinct_order: "distinct order"
    using assms(1) by (metis distinct_upt mset_eq_imp_distinct_iff)
  have length_order: "length order = length rows"
    using assms(1) by (metis length_upt mset_eq_length minus_nat.diff_0)
  have future: "\<exists>addr. series_at (rows ! i) addr_col = [addr] \<and> ?futures ! i = Inr (?merged i addr)"
    if "i < length rows" for i
  proof -
    from that assms(2) obtain addr where addr: "series_at (rows ! i) addr_col = [addr]"
      by (meson nth_mem)
    then show ?thesis
      using that by (auto simp: submit_all_def process_row_total)
  qed
  have "\<forall>f\<in>set (map (\<lambda>j. ?futures ! j) order).
      \<exists>d result_row. f = Inr d \<and> add_tm env from_crs d = Inr result_row"
  proof
    fix f
    assume "f \<in> set (map (\<lambda>j. ?futures ! j) order)"
    then obtain j where j: "j \<in> set order" and f: "f = ?futures ! j"
      by auto
    from j set_order have "j < length rows" by simp
    from future [OF this] obtain addr where "f = Inr (?merged j addr)"
      using f by auto
    moreover from add_tm_total [where from_crs = from_crs, OF assms(3)] obtain result_row
      where "add_tm env from_crs (?merged j addr) = Inr result_row"
      by blast
    ultimately show "\<exists>d result_row. f = Inr d \<and> add_tm env from_crs d = Inr result_row"
      by blast
  qed
  from collect_all [OF this, of "\<lparr>results = [], completed_count = 0\<rparr>"] obtain rs
    where run: "collect env from_crs (map (\<lambda>j. ?futures ! j) order)
          \<lparr>results = [], completed_count = 0\<rparr> =
        Inr \<lparr>results = rs, completed_count = length order\<rparr>"
      and len: "length rs = length order"
      and each: "\<forall>k<length order. \<exists>d. map (\<lambda>j. ?futures ! j) order ! k = Inr d \<and>
          add_tm env from_crs d = Inr (rs ! k)"
    by auto
  have table: "run_batch env net from_crs view rows addr_col api_key order = Inr rs"
    using run by (simp add: run_batch_def)
  have "\<exists>addr. series_at (rows ! (order ! k)) addr_col = [addr] \<and>
      add_tm env from_crs (?merged (order ! k) addr) = Inr (rs ! k)"
    if "k < length rows" for k
  proof -
    from that length_order have k: "k < length order" by simp
    then have "order ! k \<in> set order" by simp
    with set_order have "order ! k < length rows" by simp
    from future [OF this] obtain addr
      where addr: "series_at (rows ! (order ! k)) addr_col = [addr]"
        and fut: "?futures ! (order ! k) = Inr (?merged (order ! k) addr)"
      by blast
    from each k obtain d where "?futures ! (order ! k) = Inr d"
      and "add_tm env from_crs d = Inr (rs ! k)"
      by auto
    with fut addr show ?thesis by auto
  qed
  with table len length_order distinct_order set_order show ?thesis
    by auto
qed

theorem batch_keeps_rows_witness:
  "\<exists>table.
     run_batch interp_double scripted swap_transformer
       (\<lambda>i. if i = 0 then [Inr (Response 200 (Inr (point_body (ustr ''OK'') 127.0 37.5)))]
             else [Inr (Response 500 (Inl (JSONDecodeError (ustr ''Expecting value''))))])
       [[(ustr ''addr'', CStr (ustr ''Seoul''))], [(ustr ''addr'', CStr (ustr ''Busan''))],
        [(ustr ''addr'', CNone)]]
       (ustr ''addr'') (ustr ''key'') [2, 0, 1] = Inr table \<and>
     length table = 3"
proof -
  define rows :: "real series list"
    where "rows = [[(ustr ''addr'', CStr (ustr ''Seoul''))], [(ustr ''addr'', CStr (ustr ''Busan''))],
        [(ustr ''addr'', CNone)]]"
  have perm: "mset [2, 0, 1 :: nat] = mset [0..<length rows]"
    by (simp add: rows_def upt_rec)
  have labelled: "\<forall>row\<in>set rows. \<exists>addr. series_at row (ustr ''addr'') = [addr]"
    by (simp add: rows_def series_at_def)
  have total: "\<forall>x y. \<exists>p. (swap_transformer :: real transformer) (ustr ''EPSG:4326'')
      (ustr ''EPSG:5186'') (CFloat x) (CFloat y) = Inr p"
    by (simp add: swap_transformer_def)
  from batch_keeps_rows [where from_crs = swap_transformer and env = interp_double
      and net = scripted and api_key = "ustr ''key''"
      and view = "\<lambda>i. if i = 0
             then [Inr (Response 200 (Inr (point_body (ustr ''OK'') 127.0 37.5)))]
             else [Inr (Response 500 (Inl (JSONDecodeError (ustr ''Expecting value''))))]",
      OF perm labelled total]
  show ?thesis
    unfolding rows_def by auto
qed

text \<open>
  The same batch, evaluated: the rows come out in the order of completion, each with its
  own address and its own outcome.
\<close>

lemma batch_example:
  "run_batch interp_double scripted swap_transformer
     (\<lambda>i. if i = 0 then [Inr (Response 200 (Inr (point_body (ustr ''OK'') 127.0 37.5)))]
           else [Inr (Response 500 (Inl (JSONDecodeError (ustr ''Expecting value''))))])
     [[(ustr ''addr'', CStr (ustr ''Seoul''))], [(ustr ''addr'', CStr (ustr ''Busan''))],
      [(ustr ''addr'', CNone)]]
     (ustr ''addr'') (ustr ''key'') [2, 0, 1] =
   Inr [[(ustr ''addr'', CNone), (ustr ''found'', CBool False),
         (ustr ''error'', CStr msg_empty_value)],
        [(ustr ''addr'', CStr (ustr ''Seoul'')), (ustr ''lat'', CFloat 37.5),
         (ustr ''lng'', CFloat 127.0), (ustr ''found'', CBool True),
         (ustr ''level'', CStr (ustr ''exact'')), (ustr ''TMX'', CFloat 37.5),
         (ustr ''TMY'', CFloat 127.0)],
        [(ustr ''addr'', CStr (ustr ''Busan'')), (ustr ''found'', CBool False),
         (ustr ''error'', CStr (msg_http_error @ str_int 500))]]"
  by (simp add: run_batch_def submit_all_def upt_rec process_row_def series_at_def
      row_outcome_def interp_double_def py_strip_def py_isspace_def ustr_def series_to_dict_def
      geocoding_latlong_def try_block_def requests_get_def response_status_def
      point_result_def returned_def point_body_def add_tm_def dict_get_def dict_item_def
      convert_tm_def swap_transformer_def)

end
